theory Spec2Isabelle
  imports Main "HOL-Library.Word"
begin

unbundle bit_operations_syntax

section \<open>runc: a script runner with a content-addressed cache of compiled programs\<close>

text \<open>
  The development embeds \<^verbatim>\<open>runc.c\<close>. A C string is a \<open>string\<close> without its terminating
  NUL; where the code reads the terminator itself the buffer is written \<open>s @ [NUL]\<close>.
  Everything the program does to its environment is an \<open>event\<close> appended to the trace of
  an explicit \<open>world\<close>; what the environment answers is read from the same record.
\<close>

subsection \<open>Characters and C strings\<close>

definition NUL :: char where
  "NUL = CHR 0x00"

definition newline :: char where
  "newline = CHR 0x0A"

definition dquote :: char where
  "dquote = CHR 0x22"

text \<open>\<^verbatim>\<open>isspace\<close> in the "C" locale (the program never calls \<^verbatim>\<open>setlocale\<close>): space, \<^verbatim>\<open>\t\<close>,
  \<^verbatim>\<open>\n\<close>, \<^verbatim>\<open>\v\<close>, \<^verbatim>\<open>\f\<close> and \<^verbatim>\<open>\r\<close>.\<close>

definition isspace :: "char \<Rightarrow> bool" where
  "isspace c = (c = CHR '' '' \<or> c = CHR 0x09 \<or> c = CHR 0x0A \<or> c = CHR 0x0B \<or> c = CHR 0x0C \<or> c = CHR 0x0D)"

text \<open>The string a \<^verbatim>\<open>char *\<close> denotes when it points at a buffer: the bytes before the first NUL.\<close>

definition cstr :: "string \<Rightarrow> string" where
  "cstr buf = takeWhile (\<lambda>c. c \<noteq> NUL) buf"

subsection \<open>SHA-1 (the \<^verbatim>\<open>SHA1\<close> of \<^verbatim>\<open>openssl/sha.h\<close>)\<close>

text \<open>
  \<^verbatim>\<open>SHA1(data, n, md)\<close> is OpenSSL's; it is written out here after FIPS 180-4, section 6.1:
  padding to a multiple of 64 bytes, the 80-word message schedule, 80 rounds per block on
  32-bit words that wrap around, and the five chaining words stored big-endian.
\<close>

type_synonym byte = "8 word"
type_synonym u32 = "32 word"

definition SHA_DIGEST_LENGTH :: nat where
  "SHA_DIGEST_LENGTH = 20"

definition be32 :: "byte list \<Rightarrow> u32" where
  "be32 bs = foldl (\<lambda>acc b. push_bit 8 acc OR ucast b) 0 bs"

definition be_bytes :: "nat \<Rightarrow> 'a::len word \<Rightarrow> byte list" where
  "be_bytes k w = map (\<lambda>i. ucast (drop_bit (8 * i) w)) (rev [0..<k])"

fun chunks :: "nat \<Rightarrow> 'a list \<Rightarrow> 'a list list" where
  "chunks 0 xs = []"
| "chunks (Suc n) xs =
     (if xs = [] then [] else take (Suc n) xs # chunks (Suc n) (drop (Suc n) xs))"

definition sha1_pad :: "byte list \<Rightarrow> byte list" where
  "sha1_pad m = m @ [0x80] @ replicate ((119 - length m mod 64) mod 64) 0
                  @ be_bytes 8 (8 * word_of_nat (length m) :: 64 word)"

fun sha1_schedule :: "nat \<Rightarrow> u32 list \<Rightarrow> u32 list" where
  "sha1_schedule 0 ws = ws"
| "sha1_schedule (Suc n) ws =
     (let t = length ws in
      sha1_schedule n
        (ws @ [word_rotl 1 (ws ! (t - 3) XOR ws ! (t - 8) XOR ws ! (t - 14) XOR ws ! (t - 16))]))"

definition sha1_f :: "nat \<Rightarrow> u32 \<Rightarrow> u32 \<Rightarrow> u32 \<Rightarrow> u32" where
  "sha1_f t b c d =
     (if t < 20 then (b AND c) OR (NOT b AND d)
      else if t < 40 then b XOR c XOR d
      else if t < 60 then (b AND c) OR (b AND d) OR (c AND d)
      else b XOR c XOR d)"

definition sha1_k :: "nat \<Rightarrow> u32" where
  "sha1_k t =
     (if t < 20 then 0x5A827999
      else if t < 40 then 0x6ED9EBA1
      else if t < 60 then 0x8F1BBCDC
      else 0xCA62C1D6)"

type_synonym sha1_state = "u32 \<times> u32 \<times> u32 \<times> u32 \<times> u32"

fun sha1_round :: "sha1_state \<Rightarrow> nat \<times> u32 \<Rightarrow> sha1_state" where
  "sha1_round (a, b, c, d, e) (t, w) =
     (word_rotl 5 a + sha1_f t b c d + e + sha1_k t + w, a, word_rotl 30 b, c, d)"

fun sha1_add :: "sha1_state \<Rightarrow> sha1_state \<Rightarrow> sha1_state" where
  "sha1_add (a, b, c, d, e) (a', b', c', d', e') = (a + a', b + b', c + c', d + d', e + e')"

definition sha1_block :: "sha1_state \<Rightarrow> byte list \<Rightarrow> sha1_state" where
  "sha1_block h blk =
     (let ws = sha1_schedule 64 (map be32 (chunks 4 blk))
      in sha1_add h (foldl sha1_round h (zip [0..<80] ws)))"

definition sha1_init :: sha1_state where
  "sha1_init = (0x67452301, 0xEFCDAB89, 0x98BADCFE, 0x10325476, 0xC3D2E1F0)"

fun sha1_output :: "sha1_state \<Rightarrow> byte list" where
  "sha1_output (a, b, c, d, e) = concat (map (be_bytes 4) [a, b, c, d, e])"

definition SHA1 :: "byte list \<Rightarrow> byte list" where
  "SHA1 m = sha1_output (foldl sha1_block sha1_init (chunks 64 (sha1_pad m)))"

subsection \<open>The world: what the program reads, and the trace of what it does\<close>

datatype call_site = Compile | Launch

text \<open>
  \<open>Fclose ok\<close>: \<^verbatim>\<open>fclose\<close> was called, on an open stream (\<open>ok\<close>) or on the null pointer.
  \<open>Filled name alloc n\<close>: \<open>n\<close> bytes, the terminator included, were stored from the start
  of the block of \<open>alloc\<close> bytes that \<^verbatim>\<open>malloc\<close> returned for the variable \<open>name\<close>.
  \<open>System site cmd\<close>: \<^verbatim>\<open>system(cmd)\<close> was called in \<^verbatim>\<open>compile\<close> or in \<^verbatim>\<open>launch\<close>.
\<close>

datatype event =
    Fopen string bool
  | Fclose bool
  | Mkdir string
  | Printf string
  | Filled string int int
  | System call_site string

datatype errno = EEXIST | EISDIR | EACCES | ENOTDIR | ENOSPC | ENOENT

text \<open>
  \<open>files\<close>: the paths \<^verbatim>\<open>fopen(path, "rb")\<close> opens, with their bytes.
  \<open>home_env\<close>: \<^verbatim>\<open>getenv("HOME")\<close>. \<open>pw_dir\<close>: the home directory of \<^verbatim>\<open>getpwuid(getuid())\<close>,
  \<open>None\<close> when there is no record. \<open>mkdir_errno\<close>: \<open>None\<close> where \<^verbatim>\<open>mkdir\<close> returns 0,
  else the \<^verbatim>\<open>errno\<close> it sets. \<open>malloc_script\<close>: whether the next calls of \<^verbatim>\<open>malloc\<close>
  succeed, in order; calls past its end succeed. \<open>fread_short\<close>: \<^verbatim>\<open>fread\<close> delivers fewer
  bytes than asked for. \<open>indeterminate\<close>: the value read from an \<^verbatim>\<open>int\<close> that was never
  assigned.
\<close>

record world =
  files :: "string \<rightharpoonup> string"
  home_env :: "string option"
  pw_dir :: "string option"
  mkdir_errno :: "string \<Rightarrow> errno option"
  malloc_script :: "bool list"
  fread_short :: bool
  indeterminate :: int
  trace :: "event list"

text \<open>A command line handed to \<^verbatim>\<open>system\<close>: the status it returns and the files it leaves.\<close>

type_synonym shell = "string \<Rightarrow> (string \<rightharpoonup> string) \<Rightarrow> int \<times> (string \<rightharpoonup> string)"

text \<open>
  The program has undefined behaviour in places. A store one byte past a block and
  \<^verbatim>\<open>fclose(NULL)\<close> are recorded in the trace and execution goes on, as it does where the
  allocator rounds sizes up and the C library tests the stream; a store through a null
  pointer and a read past the source buffer end the run with a \<open>fault\<close>.
\<close>

datatype fault = Null_store | Read_out_of_bounds

definition emit :: "event \<Rightarrow> world \<Rightarrow> world" where
  "emit e w = w\<lparr>trace := trace w @ [e]\<rparr>"

definition malloc :: "world \<Rightarrow> bool \<times> world" where
  "malloc w =
     (case malloc_script w of
        [] \<Rightarrow> (True, w)
      | ok # rest \<Rightarrow> (ok, w\<lparr>malloc_script := rest\<rparr>))"

subsection \<open>\<^verbatim>\<open>to_hex\<close>, \<^verbatim>\<open>file_exists\<close>, \<^verbatim>\<open>mkdir_p\<close>, \<^verbatim>\<open>readfilestr\<close>\<close>

definition hex_digit :: "nat \<Rightarrow> char" where
  "hex_digit d = ''0123456789abcdef'' ! (d mod 16)"

text \<open>\<^verbatim>\<open>sprintf(str + i*2, "%02x", data[i])\<close> for \<open>i < n\<close>: two lower-case digits a byte.\<close>

definition to_hex :: "byte list \<Rightarrow> nat \<Rightarrow> string" where
  "to_hex data n =
     concat (map (\<lambda>b. [hex_digit (unat b div 16), hex_digit (unat b mod 16)]) (take n data))"

text \<open>\<^verbatim>\<open>file_exists\<close> closes whatever \<^verbatim>\<open>fopen\<close> returned, without looking at it.\<close>

definition file_exists :: "string \<Rightarrow> world \<Rightarrow> bool \<times> world" where
  "file_exists filename w =
     (let opened = (files w filename \<noteq> None);
          w1 = emit (Fopen filename opened) w;
          exists = opened;
          w2 = emit (Fclose opened) w1
      in (exists, w2))"

text \<open>
  The loop of \<^verbatim>\<open>mkdir_p\<close>: \<open>buf\<close> holds the characters copied so far; at every \<^verbatim>\<open>'/'\<close> the
  prefix up to and including it is handed to \<^verbatim>\<open>mkdir\<close>. A failure other than
  \<^verbatim>\<open>EEXIST\<close> and \<^verbatim>\<open>EISDIR\<close> returns what \<^verbatim>\<open>mkdir\<close> returned, -1.
\<close>

fun mkdir_loop :: "string \<Rightarrow> string \<Rightarrow> world \<Rightarrow> int \<times> world" where
  "mkdir_loop buf [] w = (0, w)"
| "mkdir_loop buf (c # rest) w =
     (let buf' = buf @ [c] in
      if c \<noteq> CHR ''/'' then mkdir_loop buf' rest w
      else
        (let w1 = emit (Mkdir buf') w in
         case mkdir_errno w buf' of
           None \<Rightarrow> mkdir_loop buf' rest w1
         | Some e \<Rightarrow> if e \<noteq> EEXIST \<and> e \<noteq> EISDIR then (- 1, w1) else mkdir_loop buf' rest w1))"

definition mkdir_p :: "string \<Rightarrow> world \<Rightarrow> int \<times> world" where
  "mkdir_p dir w =
     (case malloc w of
        (False, w1) \<Rightarrow> (1, w1)
      | (True, w1) \<Rightarrow> mkdir_loop [] dir w1)"

text \<open>The conversion of the \<^verbatim>\<open>long\<close> file size to the \<^verbatim>\<open>int\<close> behind \<^verbatim>\<open>len\<close>: 32 bits, wrapping.\<close>

definition long_to_int :: "nat \<Rightarrow> int" where
  "long_to_int n = sint (word_of_nat n :: 32 word)"

text \<open>
  \<^verbatim>\<open>readfilestr\<close> returns the buffer (the file's bytes; the terminator after them is left
  implicit) and the length it stored through \<^verbatim>\<open>len\<close>. The terminator is stored before
  the result of \<^verbatim>\<open>malloc\<close> is tested.
\<close>

definition readfilestr :: "string \<Rightarrow> world \<Rightarrow> (fault + (string \<times> int) option) \<times> world" where
  "readfilestr filename w =
     (case files w filename of
        None \<Rightarrow> (Inr None, emit (Fopen filename False) w)
      | Some bytes \<Rightarrow>
          (let w1 = emit (Fopen filename True) w;
               filesize = length bytes;
               len = long_to_int filesize
           in case malloc w1 of
                (False, w2) \<Rightarrow> (Inl Null_store, w2)
              | (True, w2) \<Rightarrow>
                  (let w3 = emit (Fclose True) w2 in
                   if fread_short w then (Inr None, w3)
                   else (Inr (Some (bytes, len)),
                         emit (Filled ''filedata'' (int filesize + 1) (int filesize + 1)) w3))))"

subsection \<open>\<^verbatim>\<open>source_hash\<close>, \<^verbatim>\<open>get_cache_path\<close>, \<^verbatim>\<open>get_hash_path\<close>\<close>

text \<open>
  \<^verbatim>\<open>source_hash(data, size)\<close>: \<open>data\<close> is the buffer of \<^verbatim>\<open>readfilestr\<close>, its terminator
  included in what may be read; \<open>size'\<close> (the parameter \<^verbatim>\<open>size\<close>) is converted to \<^verbatim>\<open>size_t\<close>, so a negative one asks
  for more than any buffer holds.
\<close>

definition source_hash :: "string \<Rightarrow> int \<Rightarrow> world \<Rightarrow> (fault + byte list option) \<times> world" where
  "source_hash data size' w =
     (case malloc w of
        (False, w1) \<Rightarrow> (Inr None, w1)
      | (True, w1) \<Rightarrow>
          if size' < 0 \<or> int (length data) + 1 < size' then (Inl Read_out_of_bounds, w1)
          else (Inr (Some (SHA1 (map of_char (take (nat size') (data @ [NUL]))))),
                emit (Filled ''hash'' (int SHA_DIGEST_LENGTH) (int SHA_DIGEST_LENGTH)) w1))"

definition path_part :: string where
  "path_part = ''/.runc/cache/''"

definition get_cache_path :: "world \<Rightarrow> (fault + string option) \<times> world" where
  "get_cache_path w =
     (case (case home_env w of Some h \<Rightarrow> Some h | None \<Rightarrow> pw_dir w) of
        None \<Rightarrow> (Inr None, w)
      | Some homedir \<Rightarrow>
          (case malloc w of
             (False, w1) \<Rightarrow> (Inl Null_store, w1)
           | (True, w1) \<Rightarrow>
               (let path = homedir @ path_part;
                    alloc = int (length path_part) + int (length homedir) + 1
                in (Inr (Some path), emit (Filled ''path'' alloc (int (length path) + 1)) w1))))"

definition get_hash_path :: "string \<Rightarrow> byte list \<Rightarrow> world \<Rightarrow> string option \<times> world" where
  "get_hash_path cache_path hash w =
     (case malloc w of
        (False, w1) \<Rightarrow> (None, w1)
      | (True, w1) \<Rightarrow>
          (let hash_hex = to_hex hash SHA_DIGEST_LENGTH;
               w2 = emit (Filled ''hash_hex'' (int SHA_DIGEST_LENGTH * 2 + 1)
                            (int (length hash_hex) + 1)) w1
           in case malloc w2 of
                (False, w3) \<Rightarrow> (None, w3)
              | (True, w3) \<Rightarrow>
                  (let path = cache_path @ hash_hex;
                       alloc = int (length cache_path) + int (length hash_hex) + 1
                   in (Some path, emit (Filled ''path'' alloc (int (length path) + 1)) w3))))"

subsection \<open>The regular expressions \<^verbatim>\<open>extract_hint\<close> uses\<close>

text \<open>
  \<^verbatim>\<open>regcomp\<close> and \<^verbatim>\<open>regexec\<close> are the C library's. The part of POSIX extended regular
  expressions that the pattern of \<^verbatim>\<open>extract_hint\<close> is written in is modelled: literal and
  escaped characters, bracket expressions that list characters (matching or, after
  \<^verbatim>\<open>^\<close>, non-matching), the postfix operators \<^verbatim>\<open>*\<close> and \<^verbatim>\<open>+\<close> on one character, the
  anchors and one level of parentheses. Inside a bracket expression a backslash stands for
  itself, and \<^verbatim>\<open>[:\<close> opens a character class only there: \<^verbatim>\<open>[:blank:]\<close> on its own lists
  the characters \<^verbatim>\<open>:\<close>, \<^verbatim>\<open>b\<close>, \<^verbatim>\<open>l\<close>, \<^verbatim>\<open>a\<close>, \<^verbatim>\<open>n\<close>, \<^verbatim>\<open>k\<close>. Every other construct is
  refused (\<open>None\<close>).
\<close>

datatype atom = Lit char | Bracket "char list" | NBracket "char list"

datatype item = One atom | Star atom | Plus atom | Bol | Eol | Group_open | Group_close

datatype pstate = Idle | Pending atom | In_bracket bool "char list"

definition backslash :: char where
  "backslash = CHR 0x5C"

definition ere_special :: "char \<Rightarrow> bool" where
  "ere_special c = (c \<in> set ''^.[$()|*+?{'' \<or> c = backslash)"

function (sequential) regcomp_scan :: "pstate \<Rightarrow> string \<Rightarrow> item list option" where
  "regcomp_scan Idle [] = Some []"
| "regcomp_scan (Pending a) [] = Some [One a]"
| "regcomp_scan (In_bracket neg acc) [] = None"
| "regcomp_scan (In_bracket neg acc) (c # cs) =
     (if c = CHR '']'' \<and> acc \<noteq> []
      then regcomp_scan (Pending (if neg then NBracket acc else Bracket acc)) cs
      else if c = CHR ''-'' \<and> acc \<noteq> [] \<and> take 1 cs \<noteq> '']'' then None
      else if c = CHR ''['' \<and> (take 1 cs = '':'' \<or> take 1 cs = ''.'' \<or> take 1 cs = ''='') then None
      else regcomp_scan (In_bracket neg (acc @ [c])) cs)"
| "regcomp_scan (Pending a) (c # cs) =
     (if c = CHR ''*'' then map_option (Cons (Star a)) (regcomp_scan Idle cs)
      else if c = CHR ''+'' then map_option (Cons (Plus a)) (regcomp_scan Idle cs)
      else if c = CHR ''?'' \<or> c = CHR ''{'' then None
      else map_option (Cons (One a)) (regcomp_scan Idle (c # cs)))"
| "regcomp_scan Idle (c # cs) =
     (if c = CHR ''^'' then map_option (Cons Bol) (regcomp_scan Idle cs)
      else if c = CHR ''$'' then map_option (Cons Eol) (regcomp_scan Idle cs)
      else if c = CHR ''('' then map_option (Cons Group_open) (regcomp_scan Idle cs)
      else if c = CHR '')'' then map_option (Cons Group_close) (regcomp_scan Idle cs)
      else if c = CHR ''['' then
        (case cs of
           [] \<Rightarrow> None
         | d # ds \<Rightarrow> if d = CHR ''^'' then regcomp_scan (In_bracket True []) ds
                    else regcomp_scan (In_bracket False []) (d # ds))
      else if c = backslash then
        (case cs of
           [] \<Rightarrow> None
         | d # ds \<Rightarrow> if ere_special d then regcomp_scan (Pending (Lit d)) ds else None)
      else if ere_special c then None
      else regcomp_scan (Pending (Lit c)) cs)"
  by pat_completeness auto
termination
  by (relation "measure (\<lambda>(st, cs). 2 * length cs + (case st of Pending a \<Rightarrow> 1 | _ \<Rightarrow> 0))") auto

definition regcomp :: "string \<Rightarrow> item list option" where
  "regcomp pat = regcomp_scan Idle pat"

text \<open>With \<^verbatim>\<open>REG_NEWLINE\<close> a non-matching list does not match a newline.\<close>

fun atom_ok :: "atom \<Rightarrow> char \<Rightarrow> bool" where
  "atom_ok (Lit c) x = (x = c)"
| "atom_ok (Bracket cs) x = (x \<in> set cs)"
| "atom_ok (NBracket cs) x = (x \<notin> set cs \<and> x \<noteq> newline)"

text \<open>
  \<open>rx_ends rx prev rest (i, so, eo)\<close>: all the ways \<open>rx\<close> matches a prefix of \<open>rest\<close>, which
  starts at offset \<open>i\<close> of the subject after the character \<open>prev\<close>; each with the offset
  where the match ends and the offsets of the parenthesised part. With \<^verbatim>\<open>REG_NEWLINE\<close>
  the anchors match at the start and end of the subject and next to a newline.
\<close>

type_synonym mstate = "int \<times> int \<times> int"

fun rx_ends :: "item list \<Rightarrow> char option \<Rightarrow> string \<Rightarrow> mstate \<Rightarrow> mstate list" where
  "rx_ends [] prev rest st = [st]"
| "rx_ends (One a # rx) prev [] st = []"
| "rx_ends (One a # rx) prev (c # cs) (i, so, eo) =
     (if atom_ok a c then rx_ends rx (Some c) cs (i + 1, so, eo) else [])"
| "rx_ends (Star a # rx) prev [] st = rx_ends rx prev [] st"
| "rx_ends (Star a # rx) prev (c # cs) (i, so, eo) =
     (if atom_ok a c then rx_ends (Star a # rx) (Some c) cs (i + 1, so, eo) else [])
     @ rx_ends rx prev (c # cs) (i, so, eo)"
| "rx_ends (Plus a # rx) prev [] st = []"
| "rx_ends (Plus a # rx) prev (c # cs) (i, so, eo) =
     (if atom_ok a c then rx_ends (Star a # rx) (Some c) cs (i + 1, so, eo) else [])"
| "rx_ends (Bol # rx) prev rest st =
     (if prev = None \<or> prev = Some newline then rx_ends rx prev rest st else [])"
| "rx_ends (Eol # rx) prev rest st =
     (if rest = [] \<or> take 1 rest = [newline] then rx_ends rx prev rest st else [])"
| "rx_ends (Group_open # rx) prev rest (i, so, eo) = rx_ends rx prev rest (i, i, eo)"
| "rx_ends (Group_close # rx) prev rest (i, so, eo) = rx_ends rx prev rest (i, so, i)"

text \<open>Of the matches from one start the longest is reported.\<close>

fun longest :: "mstate \<Rightarrow> mstate list \<Rightarrow> mstate" where
  "longest m [] = m"
| "longest m (x # xs) = longest (if fst m < fst x then x else m) xs"

text \<open>
  \<^verbatim>\<open>regexec(&regex, subject, 2, matches, 0)\<close>: the leftmost start that has a match. The
  result is \<open>(matches[0], matches[1])\<close>, each a pair \<open>(rm_so, rm_eo)\<close>; \<open>None\<close> is
  \<^verbatim>\<open>REG_NOMATCH\<close>.
\<close>

fun regexec_from :: "item list \<Rightarrow> char option \<Rightarrow> string \<Rightarrow> int \<Rightarrow> ((int \<times> int) \<times> (int \<times> int)) option" where
  "regexec_from rx prev [] i =
     (case rx_ends rx prev [] (i, - 1, - 1) of
        [] \<Rightarrow> None
      | m # ms \<Rightarrow> (case longest m ms of (e, so, eo) \<Rightarrow> Some ((i, e), (so, eo))))"
| "regexec_from rx prev (c # cs) i =
     (case rx_ends rx prev (c # cs) (i, - 1, - 1) of
        [] \<Rightarrow> regexec_from rx (Some c) cs (i + 1)
      | m # ms \<Rightarrow> (case longest m ms of (e, so, eo) \<Rightarrow> Some ((i, e), (so, eo))))"

definition regexec :: "item list \<Rightarrow> string \<Rightarrow> ((int \<times> int) \<times> (int \<times> int)) option" where
  "regexec rx subject = regexec_from rx None subject 0"

subsection \<open>\<^verbatim>\<open>extract_hint\<close> and \<^verbatim>\<open>hint_only_flags\<close>\<close>

text \<open>The C literal \<^verbatim>\<open>"^[:blank:]*/\\*!([^\\*]+)\\*/[:blank:]*$"\<close>, its escapes resolved.\<close>

definition pattern :: string where
  "pattern = ''^[:blank:]*/'' @ [backslash] @ ''*!([^'' @ [backslash] @ ''*]+)''
               @ [backslash] @ ''*/[:blank:]*$''"

text \<open>
  The block for the hint has \<open>hintlen\<close> bytes; \<^verbatim>\<open>strncpy\<close> stores \<open>hintlen\<close> characters and
  \<^verbatim>\<open>hint[hintlen] = 0\<close> one more. The text \<^verbatim>\<open>regerror\<close> supplies is not modelled.
\<close>

definition extract_hint :: "string \<Rightarrow> world \<Rightarrow> string option \<times> world" where
  "extract_hint sourcecode w =
     (case regcomp pattern of
        None \<Rightarrow>
          (case malloc w of
             (False, w1) \<Rightarrow> (None, w1)
           | (True, w1) \<Rightarrow>
               (None, emit (Printf (''runc: error compiling options regex: '' @ [newline])) w1))
      | Some regex \<Rightarrow>
          (case regexec regex sourcecode of
             None \<Rightarrow> (None, w)
           | Some (whole, (rm_so, rm_eo)) \<Rightarrow>
               if rm_so \<ge> 0 then
                 (let hintlen = rm_eo - rm_so in
                  case malloc w of
                    (False, w1) \<Rightarrow> (None, w1)
                  | (True, w1) \<Rightarrow>
                      (Some (take (nat hintlen) (drop (nat rm_so) sourcecode)),
                       emit (Filled ''hint'' hintlen (hintlen + 1)) w1))
               else (None, w)))"

text \<open>
  The loop of \<^verbatim>\<open>hint_only_flags\<close> runs while the pointer \<^verbatim>\<open>c\<close> is not null, which it never
  is: it ends by one of its two \<^verbatim>\<open>return\<close>s. \<open>hint_scan\<close> walks the buffer, terminator
  included; \<open>None\<close> is the walk leaving the buffer.
\<close>

fun hint_scan :: "string \<Rightarrow> bool option" where
  "hint_scan [] = None"
| "hint_scan (c # cs) =
     (if c = CHR ''-'' then Some True
      else if \<not> isspace c then Some False
      else hint_scan cs)"

definition hint_only_flags :: "string \<Rightarrow> bool" where
  "hint_only_flags options = (case hint_scan (options @ [NUL]) of Some b \<Rightarrow> b | None \<Rightarrow> True)"

subsection \<open>\<^verbatim>\<open>compile\<close> and \<^verbatim>\<open>launch\<close>\<close>

definition DEFAULT_COMPILER :: string where
  "DEFAULT_COMPILER = ''clang -Wall -std=c99''"

text \<open>\<^verbatim>\<open>sprintf\<close> with a format whose only conversions are \<^verbatim>\<open>%s\<close>.\<close>

fun sprintf_s :: "string \<Rightarrow> string list \<Rightarrow> string" where
  "sprintf_s [] args = []"
| "sprintf_s [c] args = [c]"
| "sprintf_s (c # d # fmt) args =
     (if c = CHR ''%'' \<and> d = CHR ''s''
      then (case args of [] \<Rightarrow> sprintf_s fmt [] | a # rest \<Rightarrow> a @ sprintf_s fmt rest)
      else c # sprintf_s (d # fmt) args)"

definition cmdline_fmt :: string where
  "cmdline_fmt = ''%s %s '' @ [dquote] @ ''%s'' @ [dquote] @ '' -o '' @ [dquote] @ ''%s'' @ [dquote]"

text \<open>
  \<^verbatim>\<open>compile\<close> and \<^verbatim>\<open>launch\<close> return whether they ran the command, and what they stored
  through \<^verbatim>\<open>result\<close>: nothing when \<^verbatim>\<open>malloc\<close> failed.
\<close>

definition compile :: "shell \<Rightarrow> string \<Rightarrow> string \<Rightarrow> string option \<Rightarrow> world \<Rightarrow> (bool \<times> int option) \<times> world" where
  "compile sh filename output hint w =
     (let compiler = (case hint of None \<Rightarrow> DEFAULT_COMPILER
                      | Some h \<Rightarrow> if hint_only_flags h then DEFAULT_COMPILER else h);
          extra_flags = (case hint of None \<Rightarrow> []
                         | Some h \<Rightarrow> if hint_only_flags h then h else []);
          alloc = int (length cmdline_fmt) - 8 + int (length compiler) + int (length extra_flags)
                    + int (length filename) + int (length output) + 1
      in case malloc w of
           (False, w1) \<Rightarrow> ((False, None), w1)
         | (True, w1) \<Rightarrow>
             (let cmdline = sprintf_s cmdline_fmt [compiler, extra_flags, filename, output];
                  w2 = emit (Filled ''cmdline'' alloc (int (length cmdline) + 1)) w1;
                  w3 = emit (Printf (cmdline @ [newline])) w2;
                  w4 = emit (System Compile cmdline) w3;
                  r = sh cmdline (files w4)
              in ((True, Some (fst r)), w4\<lparr>files := snd r\<rparr>)))"

definition launch :: "shell \<Rightarrow> string \<Rightarrow> string list \<Rightarrow> world \<Rightarrow> (bool \<times> int option) \<times> world" where
  "launch sh filename argv w =
     (let cmdline_len = foldl (\<lambda>n a. n + (3 + int (length a))) (int (length filename)) argv
      in case malloc w of
           (False, w1) \<Rightarrow> ((False, None), w1)
         | (True, w1) \<Rightarrow>
             (let cmdline = foldl (\<lambda>cmd a. cmd @ [CHR '' '', dquote] @ a @ [CHR '' '', dquote])
                              filename argv;
                  w2 = emit (Filled ''cmdline'' cmdline_len (int (length cmdline) + 1)) w1;
                  w3 = emit (System Launch cmdline) w2;
                  r = sh cmdline (files w3)
              in ((True, Some (fst r)), w3\<lparr>files := snd r\<rparr>)))"

subsection \<open>\<^verbatim>\<open>main\<close>\<close>

datatype outcome = Exit int | Fault fault

text \<open>
  \<^verbatim>\<open>main\<close> is written in three parts: \<open>main\<close> up to the path of the cache entry,
  \<open>main_probe\<close> from the test \<^verbatim>\<open>file_exists(out_path)\<close> on, and \<open>main_launch\<close>, the call of
  \<^verbatim>\<open>launch\<close> and what follows it. The calls of \<^verbatim>\<open>free\<close> are left out. Where
  \<^verbatim>\<open>compile\<close> returns false, \<^verbatim>\<open>main\<close> prints and goes on to test \<^verbatim>\<open>compile_result\<close>,
  which was never assigned.
\<close>

definition main_launch :: "shell \<Rightarrow> string \<Rightarrow> string list \<Rightarrow> world \<Rightarrow> outcome \<times> world" where
  "main_launch sh out_path args w =
     (case launch sh out_path args w of
        ((launch_ok, res), w1) \<Rightarrow>
          if \<not> launch_ok
          then (Exit 1, emit (Printf (''runc: failed to launch '' @ out_path @ [newline])) w1)
          else (Exit (case res of Some v \<Rightarrow> v | None \<Rightarrow> indeterminate w1), w1))"

definition main_probe :: "shell \<Rightarrow> string \<Rightarrow> string \<Rightarrow> string \<Rightarrow> string \<Rightarrow> string list \<Rightarrow> world \<Rightarrow> outcome \<times> world" where
  "main_probe sh filename sourcecode cache_path out_path args w =
     (case file_exists out_path w of
        (True, w1) \<Rightarrow> main_launch sh out_path args w1
      | (False, w1) \<Rightarrow>
          (case mkdir_p cache_path w1 of
             (r, w2) \<Rightarrow>
               if r \<noteq> 0
               then (Exit 1, emit (Printf (''runc: could not create cache directory at ''
                                     @ cache_path @ [newline])) w2)
               else
                 (case extract_hint sourcecode w2 of
                    (hint, w3) \<Rightarrow>
                      (case compile sh filename out_path hint w3 of
                         ((compile_ok, res), w4) \<Rightarrow>
                           (let compile_result = (case res of Some v \<Rightarrow> v | None \<Rightarrow> indeterminate w4);
                                w5 = (if \<not> compile_ok
                                      then emit (Printf (''runc: error compiling '' @ filename
                                                   @ '' to '' @ out_path @ [newline])) w4
                                      else w4)
                            in if compile_result \<noteq> 0 then (Exit compile_result, w5)
                               else main_launch sh out_path args w5)))))"

definition main :: "shell \<Rightarrow> string list \<Rightarrow> world \<Rightarrow> outcome \<times> world" where
  "main sh argv w =
     (if length argv < 2 then (Exit 1, emit (Printf (''runc: usage: runc <filename>'' @ [newline])) w)
      else
        (let filename = argv ! 1 in
         case readfilestr filename w of
           (Inl f, w1) \<Rightarrow> (Fault f, w1)
         | (Inr None, w1) \<Rightarrow>
             (Exit 1, emit (Printf (''runc: could not read '' @ filename @ [newline])) w1)
         | (Inr (Some (filedata, sourcelen)), w1) \<Rightarrow>
             (case source_hash filedata sourcelen w1 of
                (Inl f, w2) \<Rightarrow> (Fault f, w2)
              | (Inr None, w2) \<Rightarrow>
                  (Exit 1, emit (Printf (''runc: could not compute hash of '' @ filename
                                   @ [newline])) w2)
              | (Inr (Some hash), w2) \<Rightarrow>
                  (case get_cache_path w2 of
                     (Inl f, w3) \<Rightarrow> (Fault f, w3)
                   | (Inr None, w3) \<Rightarrow>
                       (Exit 1, emit (Printf (''runc: could not get cache path'' @ [newline])) w3)
                   | (Inr (Some cache_path), w3) \<Rightarrow>
                       (case get_hash_path cache_path hash w3 of
                          (None, w4) \<Rightarrow>
                            (Exit 1, emit (Printf (''runc: could not generate output file path for ''
                                             @ filename @ [newline])) w4)
                        | (Some out_path, w4) \<Rightarrow>
                            main_probe sh filename (cstr filedata) cache_path out_path
                              (drop 2 argv) w4)))))"

subsection \<open>Reading a trace\<close>

fun is_system :: "event \<Rightarrow> bool" where
  "is_system (System site cmd) = True"
| "is_system e = False"

fun is_compile :: "event \<Rightarrow> bool" where
  "is_compile (System Compile cmd) = True"
| "is_compile e = False"

fun is_mkdir :: "event \<Rightarrow> bool" where
  "is_mkdir (Mkdir d) = True"
| "is_mkdir e = False"

text \<open>The commands a trace ran, the directories it asked for, and what a run added.\<close>

definition systems :: "event list \<Rightarrow> event list" where
  "systems tr = filter is_system tr"

definition mkdirs :: "event list \<Rightarrow> event list" where
  "mkdirs tr = filter is_mkdir tr"

definition new_events :: "world \<Rightarrow> world \<Rightarrow> event list" where
  "new_events w w' = drop (length (trace w)) (trace w')"

text \<open>
  \<open>calm w w'\<close>: from \<open>w\<close> to \<open>w'\<close> the environment is the same and no command was run.
  \<open>quiet w w'\<close>: moreover no directory was asked for.
\<close>

definition calm :: "world \<Rightarrow> world \<Rightarrow> bool" where
  "calm w w' = (files w' = files w \<and> home_env w' = home_env w \<and> pw_dir w' = pw_dir w \<and>
     mkdir_errno w' = mkdir_errno w \<and> fread_short w' = fread_short w \<and>
     indeterminate w' = indeterminate w \<and> systems (trace w') = systems (trace w) \<and>
     (malloc_script w = [] \<longrightarrow> malloc_script w' = []))"

definition quiet :: "world \<Rightarrow> world \<Rightarrow> bool" where
  "quiet w w' = (calm w w' \<and> mkdirs (trace w') = mkdirs (trace w))"

text \<open>The path of the cache entry for a home directory and the bytes of a source file.\<close>

definition entry_path :: "string \<Rightarrow> string \<Rightarrow> string" where
  "entry_path home bytes = home @ path_part @ to_hex (SHA1 (map of_char bytes)) SHA_DIGEST_LENGTH"

subsection \<open>Example worlds\<close>

definition blank_world :: world where
  "blank_world = \<lparr>files = Map.empty, home_env = None, pw_dir = None, mkdir_errno = (\<lambda>p. None),
     malloc_script = [], fread_short = False, indeterminate = 0, trace = []\<rparr>"

definition null_shell :: shell where
  "null_shell cmd fs = (0, fs)"

text \<open>
  A world with one source file and a home directory; the same with the cache entry of
  that source in place; the same where the seventh allocation, the command line of
  \<^verbatim>\<open>compile\<close>, fails.
\<close>

definition miss_world :: world where
  "miss_world = blank_world\<lparr>files := [''/a.c'' \<mapsto> ''int main(){}''], home_env := Some ''/h''\<rparr>"

definition hit_world :: world where
  "hit_world = miss_world\<lparr>files := [''/a.c'' \<mapsto> ''int main(){}'',
                                        entry_path ''/h'' ''int main(){}'' \<mapsto> ''ELF'']\<rparr>"

definition oom_world :: world where
  "oom_world = miss_world\<lparr>malloc_script := [True, True, True, True, True, True, False]\<rparr>"

text \<open>
  A shell in which every command returns 256, the status of a child that exited with 1,
  and one in which \<^verbatim>\<open>clang\<close> returns 0 and writes the cache entry of the example source
  and every other command returns 0.
\<close>

definition failing_cc :: shell where
  "failing_cc cmd fs = (256, fs)"


text \<open>The command line \<^verbatim>\<open>launch\<close> builds, as one expression.\<close>

definition launch_cmdline :: "string \<Rightarrow> string list \<Rightarrow> string" where
  "launch_cmdline filename argv =
     filename @ concat (map (\<lambda>a. [CHR '' '', dquote] @ a @ [CHR '' '', dquote]) argv)"

subsection \<open>Statuses\<close>

text \<open>
  \<^verbatim>\<open>system\<close> returns a wait status: for a child that exited with \<open>code\<close> it is
  \<open>code\<close> in bits 8 to 15. What \<^verbatim>\<open>main\<close> returns is handed to \<^verbatim>\<open>exit\<close>, and the parent
  of the process reads its low 8 bits as the exit status.
\<close>

definition wait_status_exited :: "int \<Rightarrow> int" where
  "wait_status_exited code = (code mod 256) * 256"

fun process_exit_status :: "outcome \<Rightarrow> int option" where
  "process_exit_status (Exit n) = Some (n mod 256)"
| "process_exit_status (Fault f) = None"

section \<open>Properties\<close>

subsection \<open>The content hasher\<close>

lemma length_be_bytes: "length (be_bytes k w) = k"
  by (simp add: be_bytes_def)

lemma length_sha1_output: "length (sha1_output h) = 20"
  by (cases h) (simp add: length_be_bytes)

lemma length_SHA1: "length (SHA1 m) = SHA_DIGEST_LENGTH"
  by (simp add: SHA1_def SHA_DIGEST_LENGTH_def length_sha1_output)

text \<open>
  C2. The fingerprint \<^verbatim>\<open>source_hash\<close> returns for the first \<open>n\<close> bytes of \<open>S\<close> is one
  sequence of 20 bytes, fixed by \<open>S\<close> and \<open>n\<close>: in whatever world the call is made, it
  returns that sequence when \<^verbatim>\<open>malloc\<close> succeeds and the null pointer when it fails. So
  hashing twice, or hashing two files with the same bytes, gives the same fingerprint.
\<close>

theorem source_hash_deterministic:
  assumes "0 \<le> n" and "n \<le> int (length S)"
  shows "\<exists>d. length d = SHA_DIGEST_LENGTH \<and>
           (\<forall>w. fst (source_hash S n w) = (if fst (malloc w) then Inr (Some d) else Inr None))"
proof -
  let ?d = "SHA1 (map of_char (take (nat n) (S @ [NUL])))"
  have "fst (source_hash S n w) = (if fst (malloc w) then Inr (Some ?d) else Inr None)" for w
    using assms by (simp add: source_hash_def split: prod.splits bool.splits)
  then show ?thesis
    using length_SHA1 by blast
qed

theorem source_hash_deterministic_witness:
  "(0::int) \<le> 3 \<and> (3::int) \<le> int (length ''abc'') \<and>
   (\<exists>d. length d = SHA_DIGEST_LENGTH \<and>
      (\<forall>w. fst (source_hash ''abc'' 3 w) = (if fst (malloc w) then Inr (Some d) else Inr None)))"
  using source_hash_deterministic [of 3 "''abc''"] by simp

subsection \<open>The classification of hints\<close>

lemma hint_scan_terminated: "hint_scan (s @ [NUL]) \<noteq> None"
  by (induction s) (auto simp: NUL_def isspace_def)

text \<open>
  What \<^verbatim>\<open>hint_only_flags\<close> computes: the hint is flags-only exactly when a \<^verbatim>\<open>-\<close> follows
  leading whitespace. The terminator of an empty or all-whitespace hint is not whitespace,
  so such a hint is not flags-only.
\<close>

lemma hint_only_flags_iff:
  "hint_only_flags s \<longleftrightarrow> (\<exists>pre rest. s = pre @ CHR ''-'' # rest \<and> (\<forall>c\<in>set pre. isspace c))"
proof (induction s)
  case Nil
  show ?case by (simp add: hint_only_flags_def NUL_def isspace_def)
next
  case (Cons a s)
  show ?case
  proof (cases "a = CHR ''-''")
    case True
    then have "a # s = [] @ CHR ''-'' # s \<and> (\<forall>c\<in>set []. isspace c)" by simp
    then have "\<exists>pre rest. a # s = pre @ CHR ''-'' # rest \<and> (\<forall>c\<in>set pre. isspace c)" by blast
    with True show ?thesis by (simp add: hint_only_flags_def)
  next
    case False
    note na = False
    show ?thesis
    proof (cases "isspace a")
      case True
      have l: "hint_only_flags (a # s) = hint_only_flags s"
        using na True by (simp add: hint_only_flags_def)
      have "(\<exists>pre rest. a # s = pre @ CHR ''-'' # rest \<and> (\<forall>c\<in>set pre. isspace c))
            \<longleftrightarrow> (\<exists>pre rest. s = pre @ CHR ''-'' # rest \<and> (\<forall>c\<in>set pre. isspace c))"
      proof
        assume "\<exists>pre rest. a # s = pre @ CHR ''-'' # rest \<and> (\<forall>c\<in>set pre. isspace c)"
        then obtain pre rest where p: "a # s = pre @ CHR ''-'' # rest" "\<forall>c\<in>set pre. isspace c"
          by blast
        with na obtain pre' where "pre = a # pre'" by (cases pre) auto
        with p show "\<exists>pre rest. s = pre @ CHR ''-'' # rest \<and> (\<forall>c\<in>set pre. isspace c)"
          by auto
      next
        assume "\<exists>pre rest. s = pre @ CHR ''-'' # rest \<and> (\<forall>c\<in>set pre. isspace c)"
        then obtain pre rest where p: "s = pre @ CHR ''-'' # rest" "\<forall>c\<in>set pre. isspace c"
          by blast
        then have "a # s = (a # pre) @ CHR ''-'' # rest \<and> (\<forall>c\<in>set (a # pre). isspace c)"
          using True by simp
        then show "\<exists>pre rest. a # s = pre @ CHR ''-'' # rest \<and> (\<forall>c\<in>set pre. isspace c)"
          by blast
      qed
      with l Cons.IH show ?thesis by simp
    next
      case False
      have l: "\<not> hint_only_flags (a # s)"
        using na False by (simp add: hint_only_flags_def)
      have "\<not> (\<exists>pre rest. a # s = pre @ CHR ''-'' # rest \<and> (\<forall>c\<in>set pre. isspace c))"
      proof
        assume "\<exists>pre rest. a # s = pre @ CHR ''-'' # rest \<and> (\<forall>c\<in>set pre. isspace c)"
        then obtain pre rest where p: "a # s = pre @ CHR ''-'' # rest" "\<forall>c\<in>set pre. isspace c"
          by blast
        with na obtain pre' where "pre = a # pre'" by (cases pre) auto
        with p False show False by auto
      qed
      with l show ?thesis by simp
    qed
  qed
qed

text \<open>
  C4. On the empty hint and on a hint of three spaces \<^verbatim>\<open>hint_only_flags\<close> returns false
  (a full command override), where the claim has flags-only; on the claim's other two
  examples it returns what the claim says.
\<close>

theorem hint_only_flags_blank_is_override:
  "hint_only_flags '''' = False \<and> hint_only_flags ''   '' = False \<and>
   hint_only_flags ''-O2 -Wall'' = True \<and> hint_only_flags ''g++ -std=c++20'' = False"
  by (simp add: hint_only_flags_def isspace_def NUL_def)

subsection \<open>The cache probe\<close>

text \<open>
  C9. Where no file can be opened at the path, \<^verbatim>\<open>file_exists\<close> returns false after having
  called \<^verbatim>\<open>fclose\<close> on the null pointer that \<^verbatim>\<open>fopen\<close> returned.
\<close>

theorem file_exists_closes_null:
  "file_exists p (w\<lparr>files := Map.empty\<rparr>) =
     (False, w\<lparr>files := Map.empty, trace := trace w @ [Fopen p False, Fclose False]\<rparr>)"
  by (simp add: file_exists_def emit_def)

subsection \<open>The hint pattern, compiled\<close>

lemma regcomp_pattern:
  "regcomp pattern =
     Some [Bol, Star (Bracket '':blank:''), One (Lit (CHR ''/'')), One (Lit (CHR ''*'')),
           One (Lit (CHR ''!'')), Group_open, Plus (NBracket [backslash, CHR ''*'']), Group_close,
           One (Lit (CHR ''*'')), One (Lit (CHR ''/'')), Star (Bracket '':blank:''), Eol]"
  by (simp add: regcomp_def pattern_def backslash_def ere_special_def)

text \<open>
  C10. For the hint \<^verbatim>\<open>-lm\<close> of length 3, \<^verbatim>\<open>extract_hint\<close> asks \<^verbatim>\<open>malloc\<close> for 3 bytes and
  stores 4: the three characters and, at index 3, the terminator.
\<close>

theorem extract_hint_overruns_block:
  "extract_hint ''/*!-lm*/'' blank_world =
     (Some ''-lm'', blank_world\<lparr>trace := [Filled ''hint'' 3 4]\<rparr>)"
  by (simp add: extract_hint_def regcomp_pattern regexec_def blank_world_def malloc_def emit_def
      backslash_def newline_def)

subsection \<open>The command lines\<close>

lemma sprintf_s_cmdline_fmt:
  "sprintf_s cmdline_fmt [a, b, c, d] =
     a @ '' '' @ b @ '' '' @ [dquote] @ c @ [dquote] @ '' -o '' @ [dquote] @ d @ [dquote]"
  by (simp add: cmdline_fmt_def dquote_def)

text \<open>The block \<^verbatim>\<open>compile\<close> allocates has room for the command line and its terminator.\<close>

lemma compile_runs:
  assumes "fst (malloc w)"
  shows "compile sh f out hint w =
     (let compiler = (case hint of None \<Rightarrow> DEFAULT_COMPILER
                      | Some h \<Rightarrow> if hint_only_flags h then DEFAULT_COMPILER else h);
          extra_flags = (case hint of None \<Rightarrow> []
                         | Some h \<Rightarrow> if hint_only_flags h then h else []);
          cmdline = compiler @ '' '' @ extra_flags @ '' '' @ [dquote] @ f @ [dquote] @ '' -o ''
                      @ [dquote] @ out @ [dquote];
          w1 = snd (malloc w)
      in ((True, Some (fst (sh cmdline (files w)))),
          w1\<lparr>files := snd (sh cmdline (files w)),
             trace := trace w @ [Filled ''cmdline'' (int (length cmdline) + 1) (int (length cmdline) + 1),
                                 Printf (cmdline @ [newline]), System Compile cmdline]\<rparr>))"
  using assms
  by (auto simp: compile_def sprintf_s_cmdline_fmt Let_def malloc_def emit_def cmdline_fmt_def
      split: list.splits prod.splits bool.splits option.splits)

lemma systems_append [simp]: "systems (xs @ ys) = systems xs @ systems ys"
  by (simp add: systems_def)

lemma systems_Cons [simp]: "systems (e # xs) = (if is_system e then e # systems xs else systems xs)"
  by (simp add: systems_def)

lemma systems_Nil [simp]: "systems [] = []"
  by (simp add: systems_def)

text \<open>
  The command \<^verbatim>\<open>compile\<close> hands to \<^verbatim>\<open>system\<close>, by what \<^verbatim>\<open>hint_only_flags\<close> returns
  for the hint: without a hint, the default compiler and an empty string of extra flags;
  where it returns true, the default compiler and the hint as extra flags; where it
  returns false, the hint in place of the compiler and no extra flags.
\<close>

lemma compile_command:
  assumes "fst (malloc w)"
  shows "systems (trace (snd (compile sh f out None w))) =
           systems (trace w) @ [System Compile (DEFAULT_COMPILER @ '' '' @ [] @ '' '' @ [dquote] @ f
             @ [dquote] @ '' -o '' @ [dquote] @ out @ [dquote])]
       \<and> (hint_only_flags h \<longrightarrow>
           systems (trace (snd (compile sh f out (Some h) w))) =
             systems (trace w) @ [System Compile (DEFAULT_COMPILER @ '' '' @ h @ '' '' @ [dquote] @ f
               @ [dquote] @ '' -o '' @ [dquote] @ out @ [dquote])])
       \<and> (\<not> hint_only_flags k \<longrightarrow>
           systems (trace (snd (compile sh f out (Some k) w))) =
             systems (trace w) @ [System Compile (k @ '' '' @ [] @ '' '' @ [dquote] @ f
               @ [dquote] @ '' -o '' @ [dquote] @ out @ [dquote])])"
  by (simp add: compile_runs [OF assms] Let_def)

lemma launch_cmdline_concat:
  "foldl (\<lambda>cmd a. cmd @ [CHR '' '', dquote] @ a @ [CHR '' '', dquote]) filename argv =
     filename @ concat (map (\<lambda>a. [CHR '' '', dquote] @ a @ [CHR '' '', dquote]) argv)"
  by (induction argv arbitrary: filename) simp_all

text \<open>
  C6. For the one trailing argument \<^verbatim>\<open>x\<close> the launcher runs \<^verbatim>\<open>/p "x "\<close>: between the
  quotes stands the argument followed by a space. The block for the command line has 6
  bytes and 8 are stored.
\<close>

theorem launch_appends_space:
  "launch sh ''/p'' [''x''] blank_world =
     ((True, Some (fst (sh (''/p '' @ [dquote] @ ''x '' @ [dquote]) Map.empty))),
      blank_world\<lparr>files := snd (sh (''/p '' @ [dquote] @ ''x '' @ [dquote]) Map.empty),
        trace := [Filled ''cmdline'' 6 8, System Launch (''/p '' @ [dquote] @ ''x '' @ [dquote])]\<rparr>)"
  by (simp add: launch_def blank_world_def malloc_def emit_def Let_def)

subsection \<open>Steps that run no command\<close>

lemma mkdirs_append [simp]: "mkdirs (xs @ ys) = mkdirs xs @ mkdirs ys"
  by (simp add: mkdirs_def)

lemma mkdirs_Cons [simp]: "mkdirs (e # xs) = (if is_mkdir e then e # mkdirs xs else mkdirs xs)"
  by (simp add: mkdirs_def)

lemma mkdirs_Nil [simp]: "mkdirs [] = []"
  by (simp add: mkdirs_def)

lemma calm_refl: "calm w w"
  by (simp add: calm_def)

lemma calm_trans: "calm a b \<Longrightarrow> calm b c \<Longrightarrow> calm a c"
  by (simp add: calm_def)

lemma quiet_refl: "quiet w w"
  by (simp add: quiet_def calm_def)

lemma quiet_trans: "quiet a b \<Longrightarrow> quiet b c \<Longrightarrow> quiet a c"
  by (simp add: quiet_def calm_def)

lemma quiet_calm: "quiet a b \<Longrightarrow> calm a b"
  by (simp add: quiet_def)

lemma calm_emit: "\<not> is_system e \<Longrightarrow> calm w (emit e w)"
  by (simp add: calm_def emit_def)

lemma quiet_emit: "\<not> is_system e \<Longrightarrow> \<not> is_mkdir e \<Longrightarrow> quiet w (emit e w)"
  by (simp add: quiet_def calm_def emit_def)

lemma quiet_malloc: "quiet w (snd (malloc w))"
  by (simp add: quiet_def calm_def malloc_def split: list.splits)

lemma malloc_fields [simp]:
  "trace (snd (malloc w)) = trace w" "files (snd (malloc w)) = files w"
  "indeterminate (snd (malloc w)) = indeterminate w"
  by (simp_all add: malloc_def split: list.splits)

lemma malloc_unscripted: "malloc_script w = [] \<Longrightarrow> malloc w = (True, w)"
  by (simp add: malloc_def)

lemmas unfold_quiet = quiet_def calm_def malloc_def emit_def Let_def

lemma quiet_file_exists: "quiet w (snd (file_exists p w))"
  by (simp add: file_exists_def unfold_quiet)

lemma calm_mkdir_loop: "calm w (snd (mkdir_loop buf dir w))"
proof (induction dir arbitrary: buf w)
  case Nil
  show ?case by (simp add: calm_refl)
next
  case (Cons c dir)
  have e: "calm w (emit (Mkdir (buf @ [c])) w)"
    by (simp add: calm_emit)
  show ?case
    using Cons.IH [where buf = "buf @ [c]" and w = w]
      calm_trans [OF e Cons.IH [where buf = "buf @ [c]" and w = "emit (Mkdir (buf @ [c])) w"]] e
    by (auto simp: Let_def split: option.splits)
qed

lemma calm_mkdir_p: "calm w (snd (mkdir_p dir w))"
  using quiet_calm [OF quiet_malloc [of w]] calm_mkdir_loop [of "snd (malloc w)" "[]" dir]
  by (auto simp: mkdir_p_def calm_refl split: prod.splits bool.splits intro: calm_trans)

lemma quiet_readfilestr: "quiet w (snd (readfilestr f w))"
  by (auto simp: readfilestr_def unfold_quiet split: option.splits list.splits bool.splits)

lemma quiet_source_hash: "quiet w (snd (source_hash d n w))"
  by (auto simp: source_hash_def unfold_quiet split: option.splits list.splits bool.splits)

lemma quiet_get_cache_path: "quiet w (snd (get_cache_path w))"
  by (auto simp: get_cache_path_def unfold_quiet split: option.splits list.splits bool.splits)

lemma quiet_get_hash_path: "quiet w (snd (get_hash_path c h w))"
  by (auto simp: get_hash_path_def unfold_quiet split: option.splits list.splits bool.splits)

lemma quiet_extract_hint: "quiet w (snd (extract_hint s w))"
  by (auto simp: extract_hint_def unfold_quiet split: option.splits list.splits bool.splits)

subsection \<open>\<^verbatim>\<open>compile\<close>, \<^verbatim>\<open>launch\<close> and the end of \<^verbatim>\<open>main\<close>\<close>

lemma compile_fails:
  "\<not> fst (malloc w) \<Longrightarrow> compile sh f out hint w = ((False, None), snd (malloc w))"
  by (auto simp: compile_def Let_def split: prod.splits bool.splits)

lemma launch_fails:
  "\<not> fst (malloc w) \<Longrightarrow> launch sh p args w = ((False, None), snd (malloc w))"
  by (auto simp: launch_def Let_def split: prod.splits bool.splits)

lemma launch_runs:
  assumes "fst (malloc w)"
  shows "launch sh p args w =
     (let l = p @ concat (map (\<lambda>a. [CHR '' '', dquote] @ a @ [CHR '' '', dquote]) args);
          alloc = foldl (\<lambda>n a. n + (3 + int (length a))) (int (length p)) args
      in ((True, Some (fst (sh l (files w)))),
          (snd (malloc w))\<lparr>files := snd (sh l (files w)),
             trace := trace w @ [Filled ''cmdline'' alloc (int (length l) + 1), System Launch l]\<rparr>))"
  using assms launch_cmdline_concat [of p args]
  by (auto simp: launch_def Let_def emit_def malloc_def
      split: prod.splits bool.splits list.splits)

lemma launch_runs_ex:
  assumes "fst (malloc w)"
  shows "\<exists>l evs. launch sh p args w =
           ((True, Some (fst (sh l (files w)))),
            (snd (malloc w))\<lparr>files := snd (sh l (files w)), trace := trace w @ evs\<rparr>)
         \<and> systems evs = [System Launch l] \<and> mkdirs evs = []"
proof -
  define l where "l = p @ concat (map (\<lambda>a. [CHR '' '', dquote] @ a @ [CHR '' '', dquote]) args)"
  define evs where "evs = [Filled ''cmdline''
      (foldl (\<lambda>n a. n + (3 + int (length a))) (int (length p)) args) (int (length l) + 1),
      System Launch l]"
  have "launch sh p args w =
          ((True, Some (fst (sh l (files w)))),
           (snd (malloc w))\<lparr>files := snd (sh l (files w)), trace := trace w @ evs\<rparr>)"
    using launch_runs [OF assms, of sh p args] by (simp add: Let_def l_def evs_def)
  moreover have "systems evs = [System Launch l] \<and> mkdirs evs = []"
    by (simp add: evs_def)
  ultimately show ?thesis by blast
qed

lemma compile_runs_ex:
  assumes "fst (malloc w)"
  shows "\<exists>c evs. compile sh f out hint w =
           ((True, Some (fst (sh c (files w)))),
            (snd (malloc w))\<lparr>files := snd (sh c (files w)), trace := trace w @ evs\<rparr>)
         \<and> systems evs = [System Compile c] \<and> mkdirs evs = []"
proof -
  define c where "c = (case hint of None \<Rightarrow> DEFAULT_COMPILER
                       | Some h \<Rightarrow> if hint_only_flags h then DEFAULT_COMPILER else h)
      @ '' '' @ (case hint of None \<Rightarrow> [] | Some h \<Rightarrow> if hint_only_flags h then h else [])
      @ '' '' @ [dquote] @ f @ [dquote] @ '' -o '' @ [dquote] @ out @ [dquote]"
  define evs where "evs = [Filled ''cmdline'' (int (length c) + 1) (int (length c) + 1),
                           Printf (c @ [newline]), System Compile c]"
  have "compile sh f out hint w =
          ((True, Some (fst (sh c (files w)))),
           (snd (malloc w))\<lparr>files := snd (sh c (files w)), trace := trace w @ evs\<rparr>)"
    using compile_runs [OF assms, of sh f out hint] by (simp add: Let_def c_def evs_def)
  moreover have "systems evs = [System Compile c] \<and> mkdirs evs = []"
    by (simp add: evs_def)
  ultimately show ?thesis by blast
qed

text \<open>What \<open>main_launch\<close> can do: fail to allocate, or run the artifact and pass its status on.\<close>

lemma main_launch_shape:
  "(fst (main_launch sh p args w) = Exit 1 \<and> quiet w (snd (main_launch sh p args w))
      \<and> mkdirs (trace (snd (main_launch sh p args w))) = mkdirs (trace w) \<and> \<not> fst (malloc w))
   \<or> (\<exists>l. fst (main_launch sh p args w) = Exit (fst (sh l (files w)))
         \<and> systems (trace (snd (main_launch sh p args w))) = systems (trace w) @ [System Launch l]
         \<and> mkdirs (trace (snd (main_launch sh p args w))) = mkdirs (trace w)
         \<and> files (snd (main_launch sh p args w)) = snd (sh l (files w))
         \<and> fst (malloc w))"
proof (cases "fst (malloc w)")
  case True
  from launch_runs_ex [OF True, of sh p args] obtain l evs where
    l: "launch sh p args w =
          ((True, Some (fst (sh l (files w)))),
           (snd (malloc w))\<lparr>files := snd (sh l (files w)), trace := trace w @ evs\<rparr>)"
    and e: "systems evs = [System Launch l]" "mkdirs evs = []"
    by blast
  show ?thesis
    using True e by (auto simp: main_launch_def l)
next
  case False
  show ?thesis
    using False quiet_malloc [of w]
    by (simp add: main_launch_def launch_fails quiet_def calm_def emit_def)
qed

subsection \<open>The shapes of a run from the cache probe on\<close>

lemma file_exists_result: "fst (file_exists p w) = (files w p \<noteq> None)"
  by (simp add: file_exists_def Let_def)

lemma in_systems: "System site c \<in> set tr \<longleftrightarrow> System site c \<in> set (systems tr)"
  by (simp add: systems_def)

lemma main_probe_alt:
  "main_probe sh f src cp p args w =
     (let w1 = snd (file_exists p w) in
      if fst (file_exists p w) then main_launch sh p args w1
      else
        (let w2 = snd (mkdir_p cp w1) in
         if fst (mkdir_p cp w1) \<noteq> 0
         then (Exit 1, emit (Printf (''runc: could not create cache directory at ''
                                @ cp @ [newline])) w2)
         else
           (let hint = fst (extract_hint src w2);
                w3 = snd (extract_hint src w2);
                cr = compile sh f p hint w3;
                w4 = snd cr;
                compile_result = (case snd (fst cr) of Some v \<Rightarrow> v | None \<Rightarrow> indeterminate w4);
                w5 = (if \<not> fst (fst cr)
                      then emit (Printf (''runc: error compiling '' @ f @ '' to '' @ p @ [newline])) w4
                      else w4)
            in if compile_result \<noteq> 0 then (Exit compile_result, w5)
               else main_launch sh p args w5)))"
  by (simp add: main_probe_def split_def Let_def bool.case_eq_if)

text \<open>
  Every run of \<open>main_probe\<close> has one of five shapes: a hit (at most the launch is run);
  a miss that runs nothing; a miss on which \<^verbatim>\<open>compile\<close> could not allocate, the
  unassigned \<^verbatim>\<open>compile_result\<close> read as 0 and the launch run; a miss whose compiler
  returned a status other than 0, which is the exit status; a miss whose compiler returned
  0, followed by the launch unless that could not allocate.
\<close>

lemma main_probe_shape:
  fixes sh f src cp p args w
  defines "r \<equiv> main_probe sh f src cp p args w"
  shows "(files w p \<noteq> None \<and> mkdirs (trace (snd r)) = mkdirs (trace w) \<and>
            (systems (trace (snd r)) = systems (trace w) \<or>
             (\<exists>l. systems (trace (snd r)) = systems (trace w) @ [System Launch l]
                  \<and> fst r = Exit (fst (sh l (files w))))))
       \<or> (files w p = None \<and> systems (trace (snd r)) = systems (trace w))
       \<or> (files w p = None \<and> (\<exists>l. systems (trace (snd r)) = systems (trace w) @ [System Launch l]))
       \<or> (files w p = None \<and>
            (\<exists>c. systems (trace (snd r)) = systems (trace w) @ [System Compile c]
                 \<and> fst (sh c (files w)) \<noteq> 0 \<and> fst r = Exit (fst (sh c (files w)))))
       \<or> (files w p = None \<and>
            (\<exists>c. fst (sh c (files w)) = 0 \<and>
                 (systems (trace (snd r)) = systems (trace w) @ [System Compile c] \<or>
                  (\<exists>l. systems (trace (snd r))
                          = systems (trace w) @ [System Compile c, System Launch l]))))"
proof (cases "files w p \<noteq> None")
  case True
  define w1 where "w1 = snd (file_exists p w)"
  have q: "quiet w w1"
    by (simp add: w1_def quiet_file_exists)
  have r: "r = main_launch sh p args w1"
    using True by (simp add: r_def main_probe_alt w1_def file_exists_result Let_def)
  from q have e: "systems (trace w1) = systems (trace w)" "mkdirs (trace w1) = mkdirs (trace w)"
    "files w1 = files w"
    by (simp_all add: quiet_def calm_def)
  show ?thesis
    using main_launch_shape [of sh p args w1] True e
    by (auto simp: r quiet_def calm_def)
next
  case False
  then have miss: "files w p = None" by simp
  define w1 where "w1 = snd (file_exists p w)"
  define w2 where "w2 = snd (mkdir_p cp w1)"
  define w3 where "w3 = snd (extract_hint src w2)"
  define hint where "hint = fst (extract_hint src w2)"
  have c3: "calm w w3"
    using quiet_calm [OF quiet_file_exists [of w p]] calm_mkdir_p [of w1 cp]
      quiet_calm [OF quiet_extract_hint [of w2 src]]
    unfolding w1_def w2_def w3_def by (blast intro: calm_trans)
  then have e3: "systems (trace w3) = systems (trace w)" "files w3 = files w"
    "indeterminate w3 = indeterminate w"
    by (simp_all add: calm_def)
  show ?thesis
  proof (cases "fst (mkdir_p cp w1) \<noteq> 0")
    case True
    have "calm w w2"
      using quiet_calm [OF quiet_file_exists [of w p]] calm_mkdir_p [of w1 cp]
      unfolding w1_def w2_def by (blast intro: calm_trans)
    then have "systems (trace (snd r)) = systems (trace w)"
      using True miss
      by (simp add: r_def main_probe_alt file_exists_result w1_def w2_def calm_def emit_def Let_def)
    with miss show ?thesis by simp
  next
    case False
    then have mk: "fst (mkdir_p cp w1) = 0" by simp
    have r: "r = (let cr = compile sh f p hint w3;
                      w4 = snd cr;
                      compile_result = (case snd (fst cr) of Some v \<Rightarrow> v | None \<Rightarrow> indeterminate w4);
                      w5 = (if \<not> fst (fst cr)
                            then emit (Printf (''runc: error compiling '' @ f @ '' to '' @ p @ [newline])) w4
                            else w4)
                  in if compile_result \<noteq> 0 then (Exit compile_result, w5)
                     else main_launch sh p args w5)"
      using mk miss
      by (simp add: r_def main_probe_alt file_exists_result w1_def w2_def w3_def hint_def Let_def)
    show ?thesis
    proof (cases "fst (malloc w3)")
      case False
      define w5 where "w5 = emit (Printf (''runc: error compiling '' @ f @ '' to '' @ p @ [newline]))
                              (snd (malloc w3))"
      have e5: "systems (trace w5) = systems (trace w)" "files w5 = files w"
        using e3 by (simp_all add: w5_def emit_def)
      have r': "r = (if indeterminate w \<noteq> 0 then (Exit (indeterminate w), w5)
                     else main_launch sh p args w5)"
        using False e3 by (simp add: r compile_fails w5_def Let_def)
      show ?thesis
        using main_launch_shape [of sh p args w5] miss e5
        by (auto simp: r' quiet_def calm_def)
    next
      case True
      from compile_runs_ex [OF True, of sh f p hint] obtain c evs where
        c: "compile sh f p hint w3 =
              ((True, Some (fst (sh c (files w3)))),
               (snd (malloc w3))\<lparr>files := snd (sh c (files w3)), trace := trace w3 @ evs\<rparr>)"
        and ev: "systems evs = [System Compile c]" "mkdirs evs = []"
        by blast
      define w4 where "w4 = (snd (malloc w3))\<lparr>files := snd (sh c (files w3)), trace := trace w3 @ evs\<rparr>"
      have e4: "systems (trace w4) = systems (trace w) @ [System Compile c]"
        using e3 ev by (simp add: w4_def)
      have r': "r = (if fst (sh c (files w)) \<noteq> 0 then (Exit (fst (sh c (files w))), w4)
                     else main_launch sh p args w4)"
        using e3 by (simp add: r c w4_def Let_def)
      show ?thesis
      proof (cases "fst (sh c (files w)) = 0")
        case True
        show ?thesis
          using main_launch_shape [of sh p args w4] miss e4 True
          by (auto simp: r' quiet_def calm_def)
      next
        case False
        show ?thesis
          using miss e4 False by (auto simp: r')
      qed
    qed
  qed
qed

subsection \<open>\<^verbatim>\<open>main\<close> up to the cache probe\<close>

lemma long_to_int_small:
  assumes "n < 2 ^ 31"
  shows "long_to_int n = int n"
proof -
  have "int n < 2 ^ 31"
    using assms by (metis of_nat_less_iff of_nat_numeral of_nat_power)
  then have "signed_take_bit 31 (int n) = int n"
    by (intro signed_take_bit_int_eq_self) simp_all
  then show ?thesis
    by (simp add: long_to_int_def signed_of_nat)
qed

lemma readfilestr_Some:
  "readfilestr f w = (Inr (Some (fd, sl)), w1) \<Longrightarrow> files w f = Some fd \<and> sl = long_to_int (length fd)"
  by (auto simp: readfilestr_def Let_def split: option.splits prod.splits bool.splits if_splits)

lemma source_hash_Some:
  "source_hash d n w = (Inr (Some h), w1) \<Longrightarrow>
     h = SHA1 (map of_char (take (nat n) (d @ [NUL]))) \<and> 0 \<le> n"
  by (auto simp: source_hash_def split: prod.splits bool.splits if_splits)

lemma get_cache_path_Some:
  "get_cache_path w = (Inr (Some cp), w1) \<Longrightarrow>
     \<exists>home. (case home_env w of Some h \<Rightarrow> Some h | None \<Rightarrow> pw_dir w) = Some home \<and> cp = home @ path_part"
  by (auto simp: get_cache_path_def Let_def split: option.splits prod.splits bool.splits)

lemma get_hash_path_Some:
  "get_hash_path cp h w = (Some p, w1) \<Longrightarrow> p = cp @ to_hex h SHA_DIGEST_LENGTH"
  by (auto simp: get_hash_path_def Let_def split: option.splits prod.splits bool.splits)

text \<open>
  A run of \<open>main\<close> either ends before the cache probe, having run nothing, or goes on as
  \<open>main_probe\<close> on the path made of the home directory, \<^verbatim>\<open>/.runc/cache/\<close> and the digest
  of the source in hexadecimal.
\<close>

lemma main_early_or_probe:
  "quiet w (snd (main sh argv w))
   \<or> (\<exists>bytes home w4. 2 \<le> length argv \<and> files w (argv ! 1) = Some bytes
         \<and> (case home_env w of Some h \<Rightarrow> Some h | None \<Rightarrow> pw_dir w) = Some home
         \<and> quiet w w4 \<and> 0 \<le> long_to_int (length bytes)
         \<and> main sh argv w =
             main_probe sh (argv ! 1) (cstr bytes) (home @ path_part)
               (home @ path_part @ to_hex (SHA1 (map of_char
                   (take (nat (long_to_int (length bytes))) (bytes @ [NUL])))) SHA_DIGEST_LENGTH)
               (drop 2 argv) w4)"
proof (cases "length argv < 2")
  case True
  then show ?thesis
    by (simp add: main_def quiet_emit)
next
  case False
  note len = False
  define f where "f = argv ! 1"
  obtain r1 w1 where r1: "readfilestr f w = (r1, w1)"
    by (cases "readfilestr f w")
  have q1: "quiet w w1"
    using quiet_readfilestr [of w f] by (simp add: r1)
  have m0: "main sh argv w =
    (case readfilestr f w of
       (Inl e, w1) \<Rightarrow> (Fault e, w1)
     | (Inr None, w1) \<Rightarrow> (Exit 1, emit (Printf (''runc: could not read '' @ f @ [newline])) w1)
     | (Inr (Some (filedata, sourcelen)), w1) \<Rightarrow>
        (case source_hash filedata sourcelen w1 of
           (Inl e, w2) \<Rightarrow> (Fault e, w2)
         | (Inr None, w2) \<Rightarrow>
             (Exit 1, emit (Printf (''runc: could not compute hash of '' @ f @ [newline])) w2)
         | (Inr (Some hash), w2) \<Rightarrow>
             (case get_cache_path w2 of
                (Inl e, w3) \<Rightarrow> (Fault e, w3)
              | (Inr None, w3) \<Rightarrow>
                  (Exit 1, emit (Printf (''runc: could not get cache path'' @ [newline])) w3)
              | (Inr (Some cache_path), w3) \<Rightarrow>
                  (case get_hash_path cache_path hash w3 of
                     (None, w4) \<Rightarrow>
                       (Exit 1, emit (Printf (''runc: could not generate output file path for ''
                                        @ f @ [newline])) w4)
                   | (Some out_path, w4) \<Rightarrow>
                       main_probe sh f (cstr filedata) cache_path out_path (drop 2 argv) w4))))"
    using len unfolding f_def main_def Let_def by simp
  show ?thesis
  proof (cases r1)
    case (Inl f)
    show ?thesis using len q1 by (simp add: m0 r1 Inl)
  next
    case (Inr o1)
    show ?thesis
    proof (cases o1)
      case None
      have "quiet w1 (emit (Printf (''runc: could not read '' @ f @ [newline])) w1)"
        by (simp add: quiet_emit)
      with q1 have "quiet w (emit (Printf (''runc: could not read '' @ f @ [newline])) w1)"
        by (rule quiet_trans)
      then show ?thesis using len by (simp add: m0 r1 Inr None)
    next
      case (Some a)
      obtain fd sl where a: "a = (fd, sl)" by (cases a)
      from readfilestr_Some [of "f" w fd sl w1] r1 Inr Some a
      have fd: "files w (f) = Some fd" and sl: "sl = long_to_int (length fd)"
        by simp_all
      obtain r2 w2 where r2: "source_hash fd sl w1 = (r2, w2)"
        by (cases "source_hash fd sl w1")
      have q2: "quiet w w2"
        using quiet_source_hash [of w1 fd sl] q1 by (auto simp: r2 intro: quiet_trans)
      have m: "main sh argv w =
        (case source_hash fd sl w1 of
           (Inl f, w2) \<Rightarrow> (Fault f, w2)
         | (Inr None, w2) \<Rightarrow>
             (Exit 1, emit (Printf (''runc: could not compute hash of '' @ f @ [newline])) w2)
         | (Inr (Some hash), w2) \<Rightarrow>
             (case get_cache_path w2 of
                (Inl f, w3) \<Rightarrow> (Fault f, w3)
              | (Inr None, w3) \<Rightarrow>
                  (Exit 1, emit (Printf (''runc: could not get cache path'' @ [newline])) w3)
              | (Inr (Some cache_path), w3) \<Rightarrow>
                  (case get_hash_path cache_path hash w3 of
                     (None, w4) \<Rightarrow>
                       (Exit 1, emit (Printf (''runc: could not generate output file path for ''
                                        @ f @ [newline])) w4)
                   | (Some out_path, w4) \<Rightarrow>
                       main_probe sh (f) (cstr fd) cache_path out_path (drop 2 argv) w4)))"
        by (simp add: m0 r1 Inr Some a)
      show ?thesis
      proof (cases r2)
        case (Inl f)
        show ?thesis using q2 by (simp add: m r2 Inl)
      next
        case (Inr o2)
        note Inr2 = Inr
        show ?thesis
        proof (cases o2)
          case None
          have "quiet w (emit (Printf (''runc: could not compute hash of '' @ f @ [newline])) w2)"
            using q2 quiet_emit [of "Printf (''runc: could not compute hash of '' @ f @ [newline])" w2]
            by (auto intro: quiet_trans)
          then show ?thesis by (simp add: m r2 Inr2 None)
        next
          case (Some hash)
          note Some2 = Some
          from source_hash_Some [of fd sl w1 hash w2] r2 Inr2 Some2
          have hash: "hash = SHA1 (map of_char (take (nat sl) (fd @ [NUL])))" and sl0: "0 \<le> sl"
            by simp_all
          obtain r3 w3 where r3: "get_cache_path w2 = (r3, w3)"
            by (cases "get_cache_path w2")
          have q3: "quiet w w3"
            using quiet_get_cache_path [of w2] q2 by (auto simp: r3 intro: quiet_trans)
          show ?thesis
          proof (cases r3)
            case (Inl f)
            show ?thesis using q3 by (simp add: m r2 Inr2 Some2 r3 Inl)
          next
            case (Inr o3)
            note Inr3 = Inr
            show ?thesis
            proof (cases o3)
              case None
              have "quiet w (emit (Printf (''runc: could not get cache path'' @ [newline])) w3)"
                using q3 quiet_emit [of "Printf (''runc: could not get cache path'' @ [newline])" w3]
                by (auto intro: quiet_trans)
              then show ?thesis by (simp add: m r2 Inr2 Some2 r3 Inr3 None)
            next
              case (Some cp)
              note Some3 = Some
              from get_cache_path_Some [of w2 cp w3] r3 Inr3 Some3 obtain home where
                home2: "(case home_env w2 of Some h \<Rightarrow> Some h | None \<Rightarrow> pw_dir w2) = Some home"
                and cp: "cp = home @ path_part"
                by auto
              have home: "(case home_env w of Some h \<Rightarrow> Some h | None \<Rightarrow> pw_dir w) = Some home"
                using home2 q2 by (auto simp: quiet_def calm_def split: option.splits)
              obtain r4 w4 where r4: "get_hash_path cp hash w3 = (r4, w4)"
                by (cases "get_hash_path cp hash w3")
              have q4: "quiet w w4"
                using quiet_get_hash_path [of w3 cp hash] q3 by (auto simp: r4 intro: quiet_trans)
              show ?thesis
              proof (cases r4)
                case None
                have "quiet w (emit (Printf (''runc: could not generate output file path for ''
                                        @ f @ [newline])) w4)"
                  using q4 quiet_emit [of "Printf (''runc: could not generate output file path for ''
                                        @ f @ [newline])" w4]
                  by (auto intro: quiet_trans)
                then show ?thesis by (simp add: m r2 Inr2 Some2 r3 Inr3 Some3 r4 None)
              next
                case (Some p)
                from get_hash_path_Some [of cp hash w3 p w4] r4 Some
                have p: "p = cp @ to_hex hash SHA_DIGEST_LENGTH" by simp
                have "main sh argv w = main_probe sh (f) (cstr fd) cp p (drop 2 argv) w4"
                  by (simp add: m r2 Inr2 Some2 r3 Inr3 Some3 r4 Some)
                then have "2 \<le> length argv \<and> files w (argv ! 1) = Some fd
                   \<and> (case home_env w of Some h \<Rightarrow> Some h | None \<Rightarrow> pw_dir w) = Some home
                   \<and> quiet w w4 \<and> 0 \<le> long_to_int (length fd)
                   \<and> main sh argv w =
                       main_probe sh (argv ! 1) (cstr fd) (home @ path_part)
                         (home @ path_part @ to_hex (SHA1 (map of_char
                             (take (nat (long_to_int (length fd))) (fd @ [NUL])))) SHA_DIGEST_LENGTH)
                         (drop 2 argv) w4"
                  using len fd home q4 sl0 sl hash cp p by (simp add: f_def)
                then show ?thesis by blast
              qed
            qed
          qed
        qed
      qed
    qed
  qed
qed

subsection \<open>Example runs\<close>

lemma entry_not_source: "entry_path ''/h'' bytes \<noteq> ''/a.c''"
  by (simp add: entry_path_def path_part_def)

lemma no_hint_in_example: "regexec_from rx0 None ''int main(){}'' 0 = None" if "Some rx0 = regcomp pattern"
  using that by (simp add: regcomp_pattern backslash_def newline_def)

lemmas run_defs = main_def readfilestr_def source_hash_def get_cache_path_def get_hash_path_def
  main_probe_alt file_exists_def mkdir_p_def extract_hint_def regcomp_pattern regexec_def
  compile_def main_launch_def launch_def malloc_def emit_def Let_def
  long_to_int_small cstr_def NUL_def newline_def backslash_def
  entry_path_def path_part_def DEFAULT_COMPILER_def SHA_DIGEST_LENGTH_def sprintf_s_cmdline_fmt

lemma miss_run:
  "fst (main failing_cc [''runc'', ''/a.c''] miss_world) = Exit 256 \<and>
   systems (trace (snd (main failing_cc [''runc'', ''/a.c''] miss_world))) =
     [System Compile (''clang -Wall -std=c99  '' @ [dquote] @ ''/a.c'' @ [dquote] @ '' -o ''
        @ [dquote] @ entry_path ''/h'' ''int main(){}'' @ [dquote])]"
  by (simp add: miss_world_def blank_world_def failing_cc_def run_defs)

text \<open>
  In a run of the model that starts with an empty trace, if \<^verbatim>\<open>compile\<close> ran a command and
  \<^verbatim>\<open>system\<close> returned a value other than 0 for it, then \<open>main\<close> returns that value, the
  wait status, and the run contains no launch.
\<close>

lemma main_returns_wait_status:
  assumes "trace w = []"
      and "System Compile cmd \<in> set (trace (snd (main sh argv w)))"
      and "fst (sh cmd (files w)) \<noteq> 0"
  shows "fst (main sh argv w) = Exit (fst (sh cmd (files w)))
       \<and> (\<forall>l. System Launch l \<notin> set (trace (snd (main sh argv w))))"
proof -
  have s0: "systems (trace w) = []"
    using assms(1) by simp
  from assms(2) have c: "System Compile cmd \<in> set (systems (trace (snd (main sh argv w))))"
    by (simp add: in_systems [symmetric])
  from main_early_or_probe [of w sh argv] show ?thesis
  proof
    assume "quiet w (snd (main sh argv w))"
    then have "systems (trace (snd (main sh argv w))) = []"
      using s0 by (simp add: quiet_def calm_def)
    with c show ?thesis by simp
  next
    assume "\<exists>bytes home w4. 2 \<le> length argv \<and> files w (argv ! 1) = Some bytes
         \<and> (case home_env w of Some h \<Rightarrow> Some h | None \<Rightarrow> pw_dir w) = Some home
         \<and> quiet w w4 \<and> 0 \<le> long_to_int (length bytes)
         \<and> main sh argv w =
             main_probe sh (argv ! 1) (cstr bytes) (home @ path_part)
               (home @ path_part @ to_hex (SHA1 (map of_char
                   (take (nat (long_to_int (length bytes))) (bytes @ [NUL])))) SHA_DIGEST_LENGTH)
               (drop 2 argv) w4"
    then obtain src cp p w4 where q: "quiet w w4"
      and m: "main sh argv w = main_probe sh (argv ! 1) src cp p (drop 2 argv) w4"
      by blast
    from q s0 have e: "systems (trace w4) = []" "files w4 = files w"
      by (simp_all add: quiet_def calm_def)
    have "fst (main sh argv w) = Exit (fst (sh cmd (files w)))
       \<and> (\<forall>l. System Launch l \<notin> set (systems (trace (snd (main sh argv w)))))"
      using main_probe_shape [of w4 p sh "argv ! 1" src cp "drop 2 argv"] c assms(3) e
      by (auto simp: m)
    then show ?thesis
      by (simp add: in_systems [symmetric])
  qed
qed

text \<open>
  C8. In \<open>oom_world\<close> the allocation of the command line in \<^verbatim>\<open>compile\<close> fails, so
  \<^verbatim>\<open>compile\<close> returns false and assigns no status. \<open>main\<close> prints its diagnostic and
  goes on: the unassigned status reads as 0 here, the cache entry, which was never built,
  is launched, and the exit status is whatever that launch returns.
\<close>

theorem compile_not_invoked_falls_through:
  "fst (main sh [''runc'', ''/a.c''] oom_world) =
     Exit (fst (sh (entry_path ''/h'' ''int main(){}'') [''/a.c'' \<mapsto> ''int main(){}'']))
   \<and> systems (trace (snd (main sh [''runc'', ''/a.c''] oom_world))) =
       [System Launch (entry_path ''/h'' ''int main(){}'')]
   \<and> Printf (''runc: error compiling /a.c to '' @ entry_path ''/h'' ''int main(){}'' @ [newline])
       \<in> set (trace (snd (main sh [''runc'', ''/a.c''] oom_world)))"
  by (simp add: oom_world_def miss_world_def blank_world_def run_defs)

subsection \<open>Cache hits\<close>

lemma compile_filter_systems: "filter is_compile tr = filter is_compile (systems tr)"
proof (induction tr)
  case Nil
  show ?case by simp
next
  case (Cons e tr)
  have "is_compile e \<Longrightarrow> is_system e"
    by (cases e) simp_all
  with Cons show ?case by auto
qed

text \<open>On a hit \<open>main_probe\<close> asks for no directory and runs at most the launch of the entry.\<close>

lemma main_probe_hit:
  fixes sh f src cp p args w
  defines "r \<equiv> main_probe sh f src cp p args w"
  assumes hit: "files w p \<noteq> None"
  shows "mkdirs (trace (snd r)) = mkdirs (trace w)
       \<and> (if fst (malloc (snd (file_exists p w)))
          then systems (trace (snd r)) = systems (trace w) @ [System Launch (launch_cmdline p args)]
             \<and> fst r = Exit (fst (sh (launch_cmdline p args) (files w)))
          else systems (trace (snd r)) = systems (trace w) \<and> fst r = Exit 1)"
proof -
  define w1 where "w1 = snd (file_exists p w)"
  have q: "quiet w w1"
    by (simp add: w1_def quiet_file_exists)
  then have e: "systems (trace w1) = systems (trace w)" "mkdirs (trace w1) = mkdirs (trace w)"
    "files w1 = files w"
    by (simp_all add: quiet_def calm_def)
  have r: "r = main_launch sh p args w1"
    using hit by (simp add: r_def main_probe_alt w1_def file_exists_result Let_def)
  show ?thesis
  proof (cases "fst (malloc w1)")
    case True
    show ?thesis
      using True e
      by (simp add: r main_launch_def launch_runs [OF True] Let_def launch_cmdline_def
          w1_def [symmetric])
  next
    case False
    show ?thesis
      using False e
      by (simp add: r main_launch_def launch_fails emit_def w1_def [symmetric])
  qed
qed

text \<open>
  The hit path. Let \<open>p\<close> be the path \<open>main\<close> probes for the source file \<open>argv ! 1\<close>: the
  home directory, \<^verbatim>\<open>/.runc/cache/\<close> and the digest of the first \<^verbatim>\<open>sourcelen\<close> bytes of the
  buffer. If a file can be opened at \<open>p\<close>, a run that starts with an empty trace asks for
  no directory and compiles nothing, and the only command it can run is the launch of \<open>p\<close>
  with the trailing arguments.
\<close>

lemma cache_hit_runs_only_launch:
  fixes sh :: shell and argv :: "string list" and w :: world and bytes home :: string
  defines "p \<equiv> entry_path home (take (nat (long_to_int (length bytes))) (bytes @ [NUL]))"
      and "w1 \<equiv> snd (main sh argv w)"
  assumes src: "files w (argv ! 1) = Some bytes"
      and home: "(case home_env w of Some h \<Rightarrow> Some h | None \<Rightarrow> pw_dir w) = Some home"
      and fresh: "trace w = []"
      and h: "files w p \<noteq> None"
  shows "mkdirs (trace w1) = [] \<and> filter is_compile (trace w1) = []
       \<and> (systems (trace w1) = []
          \<or> systems (trace w1) = [System Launch (launch_cmdline p (drop 2 argv))])"
proof -
  have s0: "systems (trace w) = []" "mkdirs (trace w) = []"
    using fresh by simp_all
  from main_early_or_probe [of w sh argv] show ?thesis
  proof
    assume "quiet w (snd (main sh argv w))"
    then have "systems (trace w1) = []" "mkdirs (trace w1) = []"
      using s0 by (simp_all add: w1_def quiet_def calm_def)
    then show ?thesis
      by (simp add: compile_filter_systems [of "trace w1"])
  next
    assume "\<exists>bytes home w4. 2 \<le> length argv \<and> files w (argv ! 1) = Some bytes
       \<and> (case home_env w of Some h \<Rightarrow> Some h | None \<Rightarrow> pw_dir w) = Some home
       \<and> quiet w w4 \<and> 0 \<le> long_to_int (length bytes)
       \<and> main sh argv w =
           main_probe sh (argv ! 1) (cstr bytes) (home @ path_part)
             (home @ path_part @ to_hex (SHA1 (map of_char
                 (take (nat (long_to_int (length bytes))) (bytes @ [NUL])))) SHA_DIGEST_LENGTH)
             (drop 2 argv) w4"
    then obtain bytes' home' w4 where b: "files w (argv ! 1) = Some bytes'"
      and h': "(case home_env w of Some h \<Rightarrow> Some h | None \<Rightarrow> pw_dir w) = Some home'"
      and q: "quiet w w4"
      and m: "main sh argv w =
           main_probe sh (argv ! 1) (cstr bytes') (home' @ path_part)
             (home' @ path_part @ to_hex (SHA1 (map of_char
                 (take (nat (long_to_int (length bytes'))) (bytes' @ [NUL])))) SHA_DIGEST_LENGTH)
             (drop 2 argv) w4"
      by blast
    from b src have bb: "bytes' = bytes" by simp
    from h' home have hh: "home' = home" by simp
    have m': "main sh argv w =
           main_probe sh (argv ! 1) (cstr bytes) (home @ path_part) p (drop 2 argv) w4"
      using m by (simp add: bb hh p_def entry_path_def)
    from q s0 have e: "systems (trace w4) = []" "mkdirs (trace w4) = []" "files w4 = files w"
      by (simp_all add: quiet_def calm_def)
    have hit4: "files w4 p \<noteq> None"
      using h e by simp
    have "mkdirs (trace w1) = []
          \<and> (systems (trace w1) = []
             \<or> systems (trace w1) = [System Launch (launch_cmdline p (drop 2 argv))])"
      using main_probe_hit [OF hit4, of sh "argv ! 1" "cstr bytes" "home @ path_part" "drop 2 argv"] e
      by (auto simp: w1_def m' split: if_splits)
    then show ?thesis
      by (auto simp: compile_filter_systems [of "trace w1"])
  qed
qed

text \<open>A run on a hit: nothing but the launch of the entry.\<close>

lemma hit_run:
  "mkdirs (trace (snd (main null_shell [''runc'', ''/a.c''] hit_world))) = []
   \<and> systems (trace (snd (main null_shell [''runc'', ''/a.c''] hit_world))) =
       [System Launch (entry_path ''/h'' ''int main(){}'')]"
  by (simp add: hit_world_def miss_world_def blank_world_def null_shell_def run_defs)

subsection \<open>The first run on a miss\<close>


subsection \<open>A hint of blanks\<close>

text \<open>
  C3. The source line \<^verbatim>\<open>/*!   */\<close> gives the hint of three blanks, which the claim has
  flags-only. \<^verbatim>\<open>compile\<close> puts it in the place of the compiler: the command is five
  blanks followed by the quoted paths, and \<^verbatim>\<open>clang -Wall -std=c99\<close> is not in it.
\<close>

theorem blank_hint_replaces_compiler:
  "fst (extract_hint ''/*!   */'' blank_world) = Some ''   ''
   \<and> systems (trace (snd (compile null_shell ''a.c'' ''/c/x'' (Some ''   '') blank_world))) =
       [System Compile (''     '' @ [dquote] @ ''a.c'' @ [dquote] @ '' -o ''
          @ [dquote] @ ''/c/x'' @ [dquote])]"
proof -
  have m: "fst (malloc blank_world)"
    by (simp add: malloc_def blank_world_def)
  have h: "\<not> hint_only_flags ''   ''"
    by (simp add: hint_only_flags_def isspace_def NUL_def)
  have e: "fst (extract_hint ''/*!   */'' blank_world) = Some ''   ''"
    by (simp add: extract_hint_def regcomp_pattern regexec_def blank_world_def malloc_def emit_def
        backslash_def newline_def)
  have t: "trace blank_world = []"
    by (simp add: blank_world_def)
  show ?thesis
    using h by (simp add: e compile_runs [OF m] Let_def t)
qed

subsection \<open>Blanks around the hint comment\<close>

text \<open>
  C5. A hint comment with blanks before it, or after it, on its line is not found: the
  pattern's \<^verbatim>\<open>[:blank:]\<close> stands outside a bracket expression and lists letters. On the
  line that is the comment alone the payload comes back with the spaces next to the
  delimiters.
\<close>

theorem extract_hint_refuses_blanks:
  "fst (extract_hint ''  /*! -O2 */'' blank_world) = None
   \<and> fst (extract_hint ''/*! -O2 */ '' blank_world) = None
   \<and> fst (extract_hint ''/*! -O2 */'' blank_world) = Some '' -O2 ''
   \<and> fst (extract_hint ''blank:/*! -O2 */'' blank_world) = Some '' -O2 ''"
  by (simp add: extract_hint_def regcomp_pattern regexec_def blank_world_def malloc_def emit_def
      backslash_def newline_def)

subsection \<open>The status after a failed compilation\<close>

text \<open>
  C7. The compiler exits with 1, so \<^verbatim>\<open>system\<close> returns the wait status 256. \<open>main\<close> returns
  256, and the exit status of the invocation, its low 8 bits, is 0: not the compiler's
  status and not a nonzero one.
\<close>

theorem compile_failure_exits_zero:
  "fst (failing_cc cmd fs) = wait_status_exited 1
   \<and> fst (main failing_cc [''runc'', ''/a.c''] miss_world) = Exit (wait_status_exited 1)
   \<and> process_exit_status (fst (main failing_cc [''runc'', ''/a.c''] miss_world)) = Some 0"
  using miss_run by (simp add: failing_cc_def wait_status_exited_def)

end
